theory Spec2Isabelle
  imports Main
begin

section \<open>Values shared by the services, the request handlers and the gate\<close>

text \<open>
  JavaScript objects that leave the program (response bodies, log metadata, the rows a
  projected query returns) are JSON values; an object is the list of its fields in the
  order the source writes them. A timestamp is a number of milliseconds.
\<close>

datatype json =
    JNull
  | JBool bool
  | JNum int
  | JStr string
  | JArr "json list"
  | JObj "(string \<times> json) list"

text \<open>\<open>has_key k j\<close>: some object inside \<open>j\<close>, at any depth, has a field named \<open>k\<close>.\<close>

fun has_key :: "string \<Rightarrow> json \<Rightarrow> bool" where
  "has_key k (JObj kvs) = (\<exists>kv \<in> set kvs. fst kv = k \<or> has_key k (snd kv))"
| "has_key k (JArr js) = (\<exists>j \<in> set js. has_key k j)"
| "has_key k JNull = False"
| "has_key k (JBool b) = False"
| "has_key k (JNum n) = False"
| "has_key k (JStr s) = False"

text \<open>A thrown \<open>Error\<close>: the handlers look at its message only.\<close>

datatype err = Err (err_message: string)

text \<open>
  JavaScript truthiness of an optional string property: \<open>undefined\<close> and the empty
  string are falsy.
\<close>

definition truthy :: "string option \<Rightarrow> bool" where
  "truthy s = (case s of None \<Rightarrow> False | Some v \<Rightarrow> v \<noteq> [])"

text \<open>Array destructuring \<open>const [x] = rows\<close>: the first element, or \<open>undefined\<close>.\<close>

definition first_row :: "'a list \<Rightarrow> 'a option" where
  "first_row rows = (case rows of [] \<Rightarrow> None | x # _ \<Rightarrow> Some x)"

section \<open>The user store (users.services.js)\<close>

text \<open>
  A row of the \<open>users\<close> table with all its columns, as an unprojected \<open>db.select()\<close>
  returns it. The table is the list of its rows; every statement completes (an
  unavailable store is outside the model). Calls to the logger in the services and in
  the request handlers write to the log only and are left out.
\<close>

record user_row =
  user_id :: int
  user_name :: string
  user_email :: string
  user_password :: string
  user_role :: string
  user_createdAt :: int
  user_updatedAt :: int

text \<open>The validated body of an update request: each property may be absent.\<close>

record updates =
  upd_name :: "string option"
  upd_email :: "string option"
  upd_password :: "string option"
  upd_role :: "string option"

text \<open>
  The projection every service passes to \<open>select\<close> and \<open>returning\<close>:
  \<open>id, name, email, role, createdAt, updatedAt\<close>.
\<close>

definition projection :: "user_row \<Rightarrow> json" where
  "projection u = JObj
     [(''id'', JNum (user_id u)),
      (''name'', JStr (user_name u)),
      (''email'', JStr (user_email u)),
      (''role'', JStr (user_role u)),
      (''createdAt'', JNum (user_createdAt u)),
      (''updatedAt'', JNum (user_updatedAt u))]"

definition getAllUsers :: "user_row list \<Rightarrow> json list" where
  "getAllUsers tbl = map projection tbl"

definition getUserByIdService :: "int \<Rightarrow> user_row list \<Rightarrow> err + json" where
  "getUserByIdService uid tbl =
     (case first_row (take 1 (map projection (filter (\<lambda>u. user_id u = uid) tbl))) of
        None \<Rightarrow> Inl (Err ''User not found'')
      | Some user \<Rightarrow> Inr user)"

text \<open>
  \<open>.set(updateData)\<close> on one row: a property that is present replaces the column, and
  \<open>updatedAt\<close> is always written.
\<close>

definition set_row :: "updates \<Rightarrow> int \<Rightarrow> user_row \<Rightarrow> user_row" where
  "set_row updateData now u = u
     \<lparr> user_name := (case upd_name updateData of None \<Rightarrow> user_name u | Some v \<Rightarrow> v),
       user_email := (case upd_email updateData of None \<Rightarrow> user_email u | Some v \<Rightarrow> v),
       user_password := (case upd_password updateData of None \<Rightarrow> user_password u | Some v \<Rightarrow> v),
       user_role := (case upd_role updateData of None \<Rightarrow> user_role u | Some v \<Rightarrow> v),
       user_updatedAt := now \<rparr>"

text \<open>
  \<open>updateUser\<close> of the service. \<open>hashPassword\<close> (auth.service.js) and the clock are
  parameters; \<open>hashPassword\<close> may throw. The result is what the service returns or
  throws, with the table after the call. The returned value is \<open>None\<close> when the
  \<open>returning\<close> clause yields no row (\<open>undefined\<close>).
\<close>

definition updateUserService ::
  "(string \<Rightarrow> err + string) \<Rightarrow> int \<Rightarrow> int \<Rightarrow> updates \<Rightarrow> user_row list
     \<Rightarrow> (err + json option) \<times> user_row list" where
  "updateUserService hashPassword now uid upds tbl =
     (case first_row (take 1 (filter (\<lambda>u. user_id u = uid) tbl)) of
        None \<Rightarrow> (Inl (Err ''User not found''), tbl)
      | Some existingUser \<Rightarrow>
          (case (case upd_password upds of
                   None \<Rightarrow> Inr None
                 | Some p \<Rightarrow>
                     if p = [] then Inr (Some p)
                     else (case hashPassword p of Inl e \<Rightarrow> Inl e | Inr h \<Rightarrow> Inr (Some h))) of
             Inl e \<Rightarrow> (Inl e, tbl)
           | Inr pw \<Rightarrow>
               let updateData = upds \<lparr> upd_password := pw \<rparr> in
               if truthy (upd_email upds)
                  \<and> upd_email upds \<noteq> Some (user_email existingUser)
                  \<and> first_row (take 1 (filter (\<lambda>u. Some (user_email u) = upd_email upds) tbl)) \<noteq> None
               then (Inl (Err ''Email already in use''), tbl)
               else
                 let tbl' = map (\<lambda>u. if user_id u = uid then set_row updateData now u else u) tbl;
                     returned = map projection (filter (\<lambda>u. user_id u = uid) tbl')
                 in (Inr (first_row returned), tbl')))"

definition deleteUserService :: "int \<Rightarrow> user_row list \<Rightarrow> (err + json) \<times> user_row list" where
  "deleteUserService uid tbl =
     (case first_row (take 1 (filter (\<lambda>u. user_id u = uid) tbl)) of
        None \<Rightarrow> (Inl (Err ''User not found''), tbl)
      | Some existingUser \<Rightarrow>
          (Inr (JObj [(''id'', JNum uid), (''message'', JStr ''User deleted successfully'')]),
           filter (\<lambda>u. user_id u \<noteq> uid) tbl))"

section \<open>The request handlers (users controller)\<close>

text \<open>The identity a verified token puts in \<open>req.user\<close>.\<close>

record actor =
  actor_id :: int
  actor_email :: string
  actor_role :: string

text \<open>
  What a handler does with a request: it sends a response (status and JSON body), or it
  calls \<open>next\<close>, with the error it passes on if any.
\<close>

datatype outcome = Respond nat json | Next "err option"

text \<open>
  The validation schemas (users.validation.js) and \<open>formatValidationError\<close>
  (utils/format.js) belong to other modules, so a handler takes the result of
  \<open>safeParse\<close>: \<open>Inl details\<close> with the formatted error, or \<open>Inr\<close> the parsed data.
\<close>

definition validation_failed :: "json \<Rightarrow> outcome" where
  "validation_failed details =
     Respond 400 (JObj [(''error'', JStr ''Validation failed''), (''details'', details)])"

text \<open>A property whose value is \<open>undefined\<close> is not serialised.\<close>

definition field :: "string \<Rightarrow> json option \<Rightarrow> (string \<times> json) list" where
  "field k v = (case v of None \<Rightarrow> [] | Some j \<Rightarrow> [(k, j)])"

definition fetchAllUsers :: "user_row list \<Rightarrow> outcome" where
  "fetchAllUsers tbl =
     (let allUsers = getAllUsers tbl
      in Respond 200 (JObj [(''message'', JStr ''All users fetched successfully''),
                            (''users'', JArr allUsers),
                            (''count'', JNum (int (length allUsers)))]))"

definition getUserById :: "json + int \<Rightarrow> user_row list \<Rightarrow> outcome" where
  "getUserById validationResult tbl =
     (case validationResult of
        Inl details \<Rightarrow> validation_failed details
      | Inr uid \<Rightarrow>
          (case getUserByIdService uid tbl of
             Inr user \<Rightarrow>
               Respond 200 (JObj [(''message'', JStr ''User fetched successfully''), (''user'', user)])
           | Inl e \<Rightarrow>
               if err_message e = ''User not found''
               then Respond 404 (JObj [(''error'', JStr ''User not found'')])
               else Next (Some e)))"

definition updateUser ::
  "json + int \<Rightarrow> json + updates \<Rightarrow> actor option \<Rightarrow> (string \<Rightarrow> err + string) \<Rightarrow> int
     \<Rightarrow> user_row list \<Rightarrow> outcome \<times> user_row list" where
  "updateUser idValidationResult updateValidationResult user hashPassword now tbl =
     (case idValidationResult of
        Inl details \<Rightarrow> (validation_failed details, tbl)
      | Inr uid \<Rightarrow>
     (case updateValidationResult of
        Inl details \<Rightarrow> (validation_failed details, tbl)
      | Inr upds \<Rightarrow>
     (case user of
        None \<Rightarrow>
          (Respond 401 (JObj [(''error'', JStr ''Authentication required''),
                              (''message'', JStr ''You must be logged in to update user information'')]),
           tbl)
      | Some u \<Rightarrow>
          let isOwnProfile = (actor_id u = uid);
              isAdmin = (actor_role u = ''admin'')
          in
          if \<not> isOwnProfile \<and> \<not> isAdmin then
            (Respond 403 (JObj [(''error'', JStr ''Forbidden''),
                                (''message'', JStr ''You can only update your own profile'')]),
             tbl)
          else if truthy (upd_role upds) \<and> \<not> isAdmin then
            (Respond 403 (JObj [(''error'', JStr ''Forbidden''),
                                (''message'', JStr ''Only admins can change user roles'')]),
             tbl)
          else
            (case updateUserService hashPassword now uid upds tbl of
               (Inr updatedUser, tbl') \<Rightarrow>
                 (Respond 200 (JObj ((''message'', JStr ''User updated successfully'')
                                     # field ''user'' updatedUser)),
                  tbl')
             | (Inl e, tbl') \<Rightarrow>
                 if err_message e = ''User not found''
                 then (Respond 404 (JObj [(''error'', JStr ''User not found'')]), tbl')
                 else if err_message e = ''Email already in use''
                 then (Respond 409 (JObj [(''error'', JStr ''Email already in use'')]), tbl')
                 else (Next (Some e), tbl')))))"

definition deleteUser ::
  "json + int \<Rightarrow> actor option \<Rightarrow> user_row list \<Rightarrow> outcome \<times> user_row list" where
  "deleteUser validationResult user tbl =
     (case validationResult of
        Inl details \<Rightarrow> (validation_failed details, tbl)
      | Inr uid \<Rightarrow>
     (case user of
        None \<Rightarrow>
          (Respond 401 (JObj [(''error'', JStr ''Authentication required''),
                              (''message'', JStr ''You must be logged in to delete users'')]),
           tbl)
      | Some u \<Rightarrow>
          let isOwnProfile = (actor_id u = uid);
              isAdmin = (actor_role u = ''admin'')
          in
          if \<not> isOwnProfile \<and> \<not> isAdmin then
            (Respond 403 (JObj [(''error'', JStr ''Forbidden''),
                                (''message'', JStr ''You can only delete your own profile or be an admin'')]),
             tbl)
          else
            (case deleteUserService uid tbl of
               (Inr result, tbl') \<Rightarrow>
                 (Respond 200 (JObj [(''message'', JStr ''User deleted successfully''),
                                     (''result'', result)]),
                  tbl')
             | (Inl e, tbl') \<Rightarrow>
                 if err_message e = ''User not found''
                 then (Respond 404 (JObj [(''error'', JStr ''User not found'')]), tbl')
                 else (Next (Some e), tbl'))))"

section \<open>The rate and abuse gate (security.middleware.js)\<close>

text \<open>
  The part of an Express request the gate reads. \<open>req_userAgent\<close> is
  \<open>req.get('User-Agent')\<close>, absent when the header is.
\<close>

record request =
  req_userAgent :: "string option"
  req_user :: "actor option"
  req_ip :: string
  req_path :: string
  req_method :: string

text \<open>
  The rule \<open>slidingWindow\<close> builds, and the decision \<open>client.protect\<close> answers with.
  The decision service (Arcjet) is a parameter: it answers a rule and a request with a
  decision, or throws.
\<close>

record rule =
  rule_mode :: string
  rule_interval :: string
  rule_max :: nat
  rule_name :: string

text \<open>
  In \<open>@arcjet/node\<close>, \<open>isDenied\<close> of a decision and \<open>isBot\<close>, \<open>isShield\<close> and
  \<open>isRateLimit\<close> of its reason are methods without arguments that return a boolean:
  \<open>Method b\<close> is a method that returns \<open>b\<close>. The middleware calls \<open>isDenied()\<close>. It
  reads the three methods of the reason as properties, \<open>decision.reason.isBot\<close>, without
  calling them, and a function is truthy in JavaScript whatever it would return.
\<close>

datatype js_method = Method (call: bool)

definition property_truthy :: "js_method \<Rightarrow> bool" where
  "property_truthy m = True"

record reason =
  isBot :: js_method
  isShield :: js_method
  isRateLimit :: js_method

record decision =
  isDenied :: js_method
  reason :: reason

text \<open>
  What the gate does besides answering: the log lines it writes (level, message,
  metadata) and the call of the decision service with its rule. The \<open>stack\<close> property
  of the error metadata is left out.
\<close>

datatype level = Info | Warn | Error | Console

datatype event = Log level string "(string \<times> json) list" | Protect rule

definition opt_str :: "string option \<Rightarrow> json" where
  "opt_str s = (case s of None \<Rightarrow> JNull | Some v \<Rightarrow> JStr v)"

text \<open>\<open>String.prototype.toLowerCase\<close> on the ASCII letters.\<close>

definition lower_char :: "char \<Rightarrow> char" where
  "lower_char c =
     (let n = (of_char c :: nat) in if 65 \<le> n \<and> n \<le> 90 then char_of (n + 32) else c)"

definition toLowerCase :: "string \<Rightarrow> string" where
  "toLowerCase s = map lower_char s"

fun starts_with :: "string \<Rightarrow> string \<Rightarrow> bool" where
  "starts_with s [] = True"
| "starts_with [] (c # cs) = False"
| "starts_with (x # xs) (c # cs) = (x = c \<and> starts_with xs cs)"

text \<open>\<open>String.prototype.includes\<close>: the second string occurs in the first.\<close>

fun includes_str :: "string \<Rightarrow> string \<Rightarrow> bool" where
  "includes_str [] sub = (sub = [])"
| "includes_str (x # xs) sub = (starts_with (x # xs) sub \<or> includes_str xs sub)"

definition whitelistedUserAgents :: "string list" where
  "whitelistedUserAgents =
     [''PostmanRuntime'', ''insomnia'', ''Thunder Client'', ''HTTPie'', ''curl'', ''axios'',
      ''node-fetch'']"

definition isWhitelisted :: "string \<Rightarrow> bool" where
  "isWhitelisted userAgent =
     list_ex (\<lambda>agent. includes_str (toLowerCase userAgent) (toLowerCase agent)) whitelistedUserAgents"

text \<open>\<open>req.user?.role || 'guest'\<close>.\<close>

definition role_of :: "request \<Rightarrow> string" where
  "role_of req =
     (case req_user req of
        None \<Rightarrow> ''guest''
      | Some u \<Rightarrow> if actor_role u = [] then ''guest'' else actor_role u)"

text \<open>The \<open>switch (role)\<close> that sets \<open>limit\<close> and \<open>message\<close>.\<close>

definition limit_and_message :: "string \<Rightarrow> nat \<times> string" where
  "limit_and_message role =
     (if role = ''admin'' then (20, ''Admin request limit exceeded (20 per minute). Slow down!'')
      else if role = ''user'' then (10, ''User request limit exceeded (10 per minute). Slow down!'')
      else if role = ''guest'' then (5, ''Guest request limit exceeded (5 per minute). Slow down!'')
      else (5, ''Request limit exceeded. Slow down!''))"

text \<open>
  The middleware of security.middleware.js. \<open>env\<close> is \<open>process.env.NODE_ENV\<close>. The
  result is the answer and the events in the order they happen.
\<close>

definition securityMiddleware ::
  "string option \<Rightarrow> (rule \<Rightarrow> request \<Rightarrow> err + decision) \<Rightarrow> request \<Rightarrow> outcome \<times> event list" where
  "securityMiddleware env protect req =
     (let nodeEnv = (case env of None \<Rightarrow> ''development''
                     | Some v \<Rightarrow> if v = [] then ''development'' else v) in
      if nodeEnv \<noteq> ''production'' then
        (Next None,
         [Log Info (''Bypassing security middleware (NODE_ENV: '' @ nodeEnv @ '')'') []])
      else
        let userAgent = (case req_userAgent req of None \<Rightarrow> [] | Some v \<Rightarrow> v)
        in
        if isWhitelisted userAgent then
          (Next None,
           [Log Info ''Whitelisted user agent detected, bypassing checks''
              [(''userAgent'', JStr userAgent)]])
        else
          let role = role_of req;
              (limit, message) = limit_and_message role;
              client = \<lparr> rule_mode = ''LIVE'', rule_interval = ''1m'', rule_max = limit,
                         rule_name = role @ ''-rate-limit'' \<rparr>
          in
          (case protect client req of
             Inl e \<Rightarrow>
               (Next None,
                [Protect client,
                 Log Error ''Arcjet middleware error:''
                   [(''error'', JStr (err_message e)), (''path'', JStr (req_path req))]])
           | Inr decision \<Rightarrow>
               if call (isDenied decision) then
                 if property_truthy (isBot (reason decision)) then
                   (Respond 403 (JObj [(''error'', JStr ''Forbidden''),
                                       (''message'', JStr ''Automated requests are not allowed'')]),
                    [Protect client,
                     Log Warn ''Bot request blocked''
                       [(''ip'', JStr (req_ip req)), (''userAgent'', opt_str (req_userAgent req)),
                        (''path'', JStr (req_path req)), (''method'', JStr (req_method req))]])
                 else if property_truthy (isShield (reason decision)) then
                   (Respond 403 (JObj [(''error'', JStr ''Forbidden''),
                                       (''message'', JStr ''Request blocked by security policy'')]),
                    [Protect client,
                     Log Warn ''Shield blocked request''
                       [(''ip'', JStr (req_ip req)), (''userAgent'', opt_str (req_userAgent req)),
                        (''path'', JStr (req_path req)), (''method'', JStr (req_method req))]])
                 else if property_truthy (isRateLimit (reason decision)) then
                   (Respond 429 (JObj [(''error'', JStr ''Too Many Requests''),
                                       (''message'', JStr message)]),
                    [Protect client,
                     Log Warn ''Rate limit exceeded''
                       [(''ip'', JStr (req_ip req)), (''userAgent'', opt_str (req_userAgent req)),
                        (''path'', JStr (req_path req)), (''role'', JStr role)]])
                 else (Next None, [Protect client])
               else (Next None, [Protect client])))"

text \<open>
  The second middleware of the same name: no deployment check, no allow-list, a fixed
  message in the rate-limit branch (the \<open>message\<close> its \<open>switch\<close> sets is not read), and a
  \<open>500\<close> answer in its \<open>catch\<close>. Its \<open>console.log\<close> is an event of level
  \<open>Console\<close>.
\<close>

definition securityMiddleware2 ::
  "(rule \<Rightarrow> request \<Rightarrow> err + decision) \<Rightarrow> request \<Rightarrow> outcome \<times> event list" where
  "securityMiddleware2 protect req =
     (let role = role_of req;
          (limit, message) = limit_and_message role;
          client = \<lparr> rule_mode = ''LIVE'', rule_interval = ''1m'', rule_max = limit,
                     rule_name = role @ ''-rate-limit'' \<rparr>
      in
      (case protect client req of
         Inl e \<Rightarrow>
           (Respond 500 (JObj [(''error'', JStr ''Internal Server Error''),
                               (''message'', JStr ''Something went wrong with security middleware'')]),
            [Protect client,
             Log Console ''Arcjet Middleware Error:'' [(''error'', JStr (err_message e))]])
       | Inr decision \<Rightarrow>
           if call (isDenied decision) then
             if property_truthy (isBot (reason decision)) then
               (Respond 403 (JObj [(''error'', JStr ''Forbidden''),
                                   (''message'', JStr ''Automated requests are not allowed'')]),
                [Protect client,
                 Log Warn ''Bot request blocked''
                   [(''ip'', JStr (req_ip req)), (''userAgent'', opt_str (req_userAgent req)),
                    (''path'', JStr (req_path req))]])
             else if property_truthy (isShield (reason decision)) then
               (Respond 403 (JObj [(''error'', JStr ''Forbidden''),
                                   (''message'', JStr ''Request blocked by security policy'')]),
                [Protect client,
                 Log Warn ''Shield Blocked Request''
                   [(''ip'', JStr (req_ip req)), (''userAgent'', opt_str (req_userAgent req)),
                    (''path'', JStr (req_path req)), (''method'', JStr (req_method req))]])
             else if property_truthy (isRateLimit (reason decision)) then
               (Respond 429 (JObj [(''error'', JStr ''Too Many Requests''),
                                   (''message'', JStr ''Too many requests'')]),
                [Protect client,
                 Log Warn ''Rate limit exceeded''
                   [(''ip'', JStr (req_ip req)), (''userAgent'', opt_str (req_userAgent req)),
                    (''path'', JStr (req_path req))]])
             else (Next None, [Protect client])
           else (Next None, [Protect client])))"

text \<open>
  Two decision services to run the gate on: one that throws the given error, one that
  answers every request with the given decision.
\<close>

definition throwing_service :: "err \<Rightarrow> rule \<Rightarrow> request \<Rightarrow> err + decision" where
  "throwing_service e r q = Inl e"

definition answering_service :: "decision \<Rightarrow> rule \<Rightarrow> request \<Rightarrow> err + decision" where
  "answering_service d r q = Inr d"


section \<open>Looking a row up\<close>

lemma first_row_Nil [simp]: "first_row [] = None"
  by (simp add: first_row_def)

lemma first_row_Cons [simp]: "first_row (x # xs) = Some x"
  by (simp add: first_row_def)

lemma first_row_take [simp]: "first_row (take (Suc n) xs) = first_row xs"
  by (cases xs) simp_all

lemma first_row_eq_None: "first_row xs = None \<longleftrightarrow> xs = []"
  by (cases xs) simp_all

lemma lookup_absent:
  "uid \<notin> user_id ` set tbl \<Longrightarrow>
   first_row (filter (\<lambda>u. user_id u = uid) tbl) = None"
  by (auto simp add: first_row_eq_None filter_empty_conv)

lemma updateUserService_absent:
  "uid \<notin> user_id ` set tbl \<Longrightarrow>
   updateUserService hp now uid upds tbl = (Inl (Err ''User not found''), tbl)"
  by (simp add: updateUserService_def lookup_absent)

lemma deleteUserService_absent:
  "uid \<notin> user_id ` set tbl \<Longrightarrow>
   deleteUserService uid tbl = (Inl (Err ''User not found''), tbl)"
  by (simp add: deleteUserService_def lookup_absent)

section \<open>Requests on an id that is not in the store\<close>

text \<open>
  Counterexample to C1. The store holds user 1 only, so id 2 does not exist. The
  authenticated user 1, of role \<open>user\<close>, asks to delete and to update id 2: the service
  would fail with \<open>User not found\<close>, but both handlers answer 403 from the ownership
  check, which runs before the service is called.
\<close>

theorem not_found_counterexample:
  "deleteUserService 2
     [\<lparr>user_id = 1, user_name = ''Ann'', user_email = ''ann@example.com'', user_password = ''h1'',
       user_role = ''user'', user_createdAt = 0, user_updatedAt = 0\<rparr>]
   = (Inl (Err ''User not found''),
      [\<lparr>user_id = 1, user_name = ''Ann'', user_email = ''ann@example.com'', user_password = ''h1'',
        user_role = ''user'', user_createdAt = 0, user_updatedAt = 0\<rparr>])
   \<and> fst (deleteUser (Inr 2)
        (Some \<lparr>actor_id = 1, actor_email = ''ann@example.com'', actor_role = ''user''\<rparr>)
        [\<lparr>user_id = 1, user_name = ''Ann'', user_email = ''ann@example.com'', user_password = ''h1'',
          user_role = ''user'', user_createdAt = 0, user_updatedAt = 0\<rparr>])
     = Respond 403 (JObj [(''error'', JStr ''Forbidden''),
         (''message'', JStr ''You can only delete your own profile or be an admin'')])
   \<and> fst (updateUser (Inr 2)
        (Inr \<lparr>upd_name = Some ''Bob'', upd_email = None, upd_password = None, upd_role = None\<rparr>)
        (Some \<lparr>actor_id = 1, actor_email = ''ann@example.com'', actor_role = ''user''\<rparr>)
        Inr 5
        [\<lparr>user_id = 1, user_name = ''Ann'', user_email = ''ann@example.com'', user_password = ''h1'',
          user_role = ''user'', user_createdAt = 0, user_updatedAt = 0\<rparr>])
     = Respond 403 (JObj [(''error'', JStr ''Forbidden''),
         (''message'', JStr ''You can only update your own profile'')])"
  by (simp add: deleteUserService_def deleteUser_def updateUser_def)

text \<open>
  C1, as amended. When the target id is in no row of the store, the update and the
  delete service fail with \<open>User not found\<close>; the delete handler answers 404 to an
  actor who is the owner of the id or an admin, and the update handler answers 404 to
  such an actor unless a non-admin asks for a role change. In both cases the store is
  left as it was.
\<close>

theorem not_found_when_authorized:
  "uid \<notin> user_id ` set tbl \<longrightarrow>
     (fst (updateUserService hashPassword now uid upds tbl) = Inl (Err ''User not found''))
   \<and> (fst (deleteUserService uid tbl) = Inl (Err ''User not found''))
   \<and> ((actor_id a = uid \<or> actor_role a = ''admin'') \<longrightarrow>
        deleteUser (Inr uid) (Some a) tbl
          = (Respond 404 (JObj [(''error'', JStr ''User not found'')]), tbl))
   \<and> ((actor_id a = uid \<or> actor_role a = ''admin'')
        \<and> (truthy (upd_role upds) \<longrightarrow> actor_role a = ''admin'') \<longrightarrow>
        updateUser (Inr uid) (Inr upds) (Some a) hashPassword now tbl
          = (Respond 404 (JObj [(''error'', JStr ''User not found'')]), tbl))"
  by (auto simp add: updateUserService_absent deleteUserService_absent updateUser_def
      deleteUser_def)

theorem not_found_when_authorized_witness:
  "7 \<notin> user_id ` set [\<lparr>user_id = 1, user_name = ''Ann'', user_email = ''ann@example.com'', user_password = ''h1'',
          user_role = ''user'', user_createdAt = 0, user_updatedAt = 0\<rparr>]
   \<and> fst (updateUserService Inr 5 7 \<lparr>upd_name = Some ''Bob'', upd_email = None, upd_password = None, upd_role = None\<rparr>
        [\<lparr>user_id = 1, user_name = ''Ann'', user_email = ''ann@example.com'', user_password = ''h1'',
          user_role = ''user'', user_createdAt = 0, user_updatedAt = 0\<rparr>])
       = Inl (Err ''User not found'')
   \<and> fst (deleteUserService 7
        [\<lparr>user_id = 1, user_name = ''Ann'', user_email = ''ann@example.com'', user_password = ''h1'',
          user_role = ''user'', user_createdAt = 0, user_updatedAt = 0\<rparr>])
       = Inl (Err ''User not found'')
   \<and> deleteUser (Inr 7) (Some \<lparr>actor_id = 9, actor_email = ''root@example.com'', actor_role = ''admin''\<rparr>)
        [\<lparr>user_id = 1, user_name = ''Ann'', user_email = ''ann@example.com'', user_password = ''h1'',
          user_role = ''user'', user_createdAt = 0, user_updatedAt = 0\<rparr>]
       = (Respond 404 (JObj [(''error'', JStr ''User not found'')]),
        [\<lparr>user_id = 1, user_name = ''Ann'', user_email = ''ann@example.com'', user_password = ''h1'',
          user_role = ''user'', user_createdAt = 0, user_updatedAt = 0\<rparr>])
   \<and> updateUser (Inr 7) (Inr \<lparr>upd_name = Some ''Bob'', upd_email = None, upd_password = None, upd_role = None\<rparr>)
        (Some \<lparr>actor_id = 9, actor_email = ''root@example.com'', actor_role = ''admin''\<rparr>) Inr 5
        [\<lparr>user_id = 1, user_name = ''Ann'', user_email = ''ann@example.com'', user_password = ''h1'',
          user_role = ''user'', user_createdAt = 0, user_updatedAt = 0\<rparr>]
       = (Respond 404 (JObj [(''error'', JStr ''User not found'')]),
        [\<lparr>user_id = 1, user_name = ''Ann'', user_email = ''ann@example.com'', user_password = ''h1'',
          user_role = ''user'', user_createdAt = 0, user_updatedAt = 0\<rparr>])"
  using not_found_when_authorized [of 7
      "[\<lparr>user_id = 1, user_name = ''Ann'', user_email = ''ann@example.com'', user_password = ''h1'',
          user_role = ''user'', user_createdAt = 0, user_updatedAt = 0\<rparr>]" Inr 5
      "\<lparr>upd_name = Some ''Bob'', upd_email = None, upd_password = None, upd_role = None\<rparr>"
      "\<lparr>actor_id = 9, actor_email = ''root@example.com'', actor_role = ''admin''\<rparr>"]
  by simp

lemma lookup_present:
  "\<exists>u \<in> set tbl. P u \<Longrightarrow> \<exists>r. first_row (take 1 (filter P tbl)) = Some r \<and> P r \<and> r \<in> set tbl"
proof -
  assume "\<exists>u \<in> set tbl. P u"
  then have "filter P tbl \<noteq> []" by (simp add: filter_empty_conv)
  then obtain r rest where eq: "filter P tbl = r # rest" by (cases "filter P tbl") auto
  then have "r \<in> set (filter P tbl)" by simp
  then have "P r \<and> r \<in> set tbl" by simp
  with eq show ?thesis by simp
qed

section \<open>The authorization checks of update and delete\<close>

text \<open>
  C4. An authenticated update whose changes carry a role (a present, non-empty \<open>role\<close>,
  which is what the handler tests) from an actor whose role is not \<open>admin\<close> is answered
  403 and leaves the store unchanged, whoever owns the target, the actor included. An
  admin who sends a new role for another, existing user gets 200, and the rows of that
  id then carry the new role.
\<close>

theorem role_change_requires_admin:
  "((upd_role upds = Some r \<and> r \<noteq> [] \<and> actor_role a \<noteq> ''admin'') \<longrightarrow>
      (\<exists>msg. updateUser (Inr uid) (Inr upds) (Some a) hashPassword now tbl
         = (Respond 403 (JObj [(''error'', JStr ''Forbidden''), (''message'', JStr msg)]), tbl)))
   \<and> ((actor_role a = ''admin'' \<and> actor_id a \<noteq> uid \<and> r \<noteq> [] \<and> (\<exists>u \<in> set tbl. user_id u = uid)) \<longrightarrow>
      (\<exists>body. fst (updateUser (Inr uid)
                 (Inr \<lparr>upd_name = None, upd_email = None, upd_password = None, upd_role = Some r\<rparr>)
                 (Some a) hashPassword now tbl) = Respond 200 body)
      \<and> snd (updateUser (Inr uid)
                 (Inr \<lparr>upd_name = None, upd_email = None, upd_password = None, upd_role = Some r\<rparr>)
                 (Some a) hashPassword now tbl)
          = map (\<lambda>u. if user_id u = uid then u\<lparr>user_role := r, user_updatedAt := now\<rparr> else u) tbl)"
proof (intro conjI impI)
  assume "upd_role upds = Some r \<and> r \<noteq> [] \<and> actor_role a \<noteq> ''admin''"
  then show "\<exists>msg. updateUser (Inr uid) (Inr upds) (Some a) hashPassword now tbl
         = (Respond 403 (JObj [(''error'', JStr ''Forbidden''), (''message'', JStr msg)]), tbl)"
    by (simp add: updateUser_def truthy_def Let_def)
next
  let ?upds = "\<lparr>upd_name = None, upd_email = None, upd_password = None, upd_role = Some r\<rparr>"
  assume h: "actor_role a = ''admin'' \<and> actor_id a \<noteq> uid \<and> r \<noteq> [] \<and> (\<exists>u \<in> set tbl. user_id u = uid)"
  then obtain x where "first_row (take 1 (filter (\<lambda>u. user_id u = uid) tbl)) = Some x"
    using lookup_present [of tbl "\<lambda>u. user_id u = uid"] by blast
  then have x: "first_row (filter (\<lambda>u. user_id u = uid) tbl) = Some x"
    by simp
  have svc: "updateUserService hashPassword now uid ?upds tbl
      = (Inr (first_row (map projection (filter (\<lambda>u. user_id u = uid)
            (map (\<lambda>u. if user_id u = uid then set_row ?upds now u else u) tbl)))),
         map (\<lambda>u. if user_id u = uid then set_row ?upds now u else u) tbl)"
    by (simp add: updateUserService_def x truthy_def Let_def)
  have row: "\<And>u. set_row ?upds now u = u\<lparr>user_role := r, user_updatedAt := now\<rparr>"
    by (simp add: set_row_def)
  show "\<exists>body. fst (updateUser (Inr uid) (Inr ?upds) (Some a) hashPassword now tbl) = Respond 200 body"
    using h by (simp add: updateUser_def svc)
  show "snd (updateUser (Inr uid) (Inr ?upds) (Some a) hashPassword now tbl)
          = map (\<lambda>u. if user_id u = uid then u\<lparr>user_role := r, user_updatedAt := now\<rparr> else u) tbl"
    using h by (simp add: updateUser_def svc row)
qed


theorem role_change_requires_admin_witness:
  "(upd_role \<lparr>upd_name = None, upd_email = None, upd_password = None, upd_role = Some ''admin''\<rparr>
      = Some ''admin'' \<and> ''admin'' \<noteq> []
    \<and> actor_role \<lparr>actor_id = 1, actor_email = ''ann@example.com'', actor_role = ''user''\<rparr> \<noteq> ''admin'')
   \<and> (\<exists>msg. updateUser (Inr 1)
         (Inr \<lparr>upd_name = None, upd_email = None, upd_password = None, upd_role = Some ''admin''\<rparr>)
         (Some \<lparr>actor_id = 1, actor_email = ''ann@example.com'', actor_role = ''user''\<rparr>) Inr 5
         [\<lparr>user_id = 1, user_name = ''Ann'', user_email = ''ann@example.com'', user_password = ''h1'',
           user_role = ''user'', user_createdAt = 0, user_updatedAt = 0\<rparr>]
       = (Respond 403 (JObj [(''error'', JStr ''Forbidden''), (''message'', JStr msg)]),
          [\<lparr>user_id = 1, user_name = ''Ann'', user_email = ''ann@example.com'', user_password = ''h1'',
            user_role = ''user'', user_createdAt = 0, user_updatedAt = 0\<rparr>]))
   \<and> (actor_role \<lparr>actor_id = 9, actor_email = ''root@example.com'', actor_role = ''admin''\<rparr> = ''admin''
      \<and> actor_id \<lparr>actor_id = 9, actor_email = ''root@example.com'', actor_role = ''admin''\<rparr> \<noteq> 1
      \<and> (\<exists>u \<in> set [\<lparr>user_id = 1, user_name = ''Ann'', user_email = ''ann@example.com'',
                        user_password = ''h1'', user_role = ''user'', user_createdAt = 0,
                        user_updatedAt = 0\<rparr>]. user_id u = 1))
   \<and> snd (updateUser (Inr 1)
         (Inr \<lparr>upd_name = None, upd_email = None, upd_password = None, upd_role = Some ''admin''\<rparr>)
         (Some \<lparr>actor_id = 9, actor_email = ''root@example.com'', actor_role = ''admin''\<rparr>) Inr 5
         [\<lparr>user_id = 1, user_name = ''Ann'', user_email = ''ann@example.com'', user_password = ''h1'',
           user_role = ''user'', user_createdAt = 0, user_updatedAt = 0\<rparr>])
       = [\<lparr>user_id = 1, user_name = ''Ann'', user_email = ''ann@example.com'', user_password = ''h1'',
           user_role = ''admin'', user_createdAt = 0, user_updatedAt = 5\<rparr>]"
  using role_change_requires_admin [of
      "\<lparr>upd_name = None, upd_email = None, upd_password = None, upd_role = Some ''admin''\<rparr>"
      "''admin''" "\<lparr>actor_id = 1, actor_email = ''ann@example.com'', actor_role = ''user''\<rparr>"
      1 Inr 5
      "[\<lparr>user_id = 1, user_name = ''Ann'', user_email = ''ann@example.com'', user_password = ''h1'',
         user_role = ''user'', user_createdAt = 0, user_updatedAt = 0\<rparr>]"]
    role_change_requires_admin [of
      "\<lparr>upd_name = None, upd_email = None, upd_password = None, upd_role = Some ''admin''\<rparr>"
      "''admin''" "\<lparr>actor_id = 9, actor_email = ''root@example.com'', actor_role = ''admin''\<rparr>"
      1 Inr 5
      "[\<lparr>user_id = 1, user_name = ''Ann'', user_email = ''ann@example.com'', user_password = ''h1'',
         user_role = ''user'', user_createdAt = 0, user_updatedAt = 0\<rparr>]"]
  by simp

text \<open>
  C5. An authenticated actor who is neither the owner of the target id nor an admin gets
  403 from the update handler and from the delete handler, with the store unchanged. An
  owner or an admin passes the check: delete then answers 200 or 404, never 403; update
  never answers with the ownership refusal, and answers 403 exactly when a non-admin
  asks for a role change, the sub-case delete does not have.
\<close>

theorem own_profile_or_admin:
  "((actor_id a \<noteq> uid \<and> actor_role a \<noteq> ''admin'') \<longrightarrow>
       updateUser (Inr uid) (Inr upds) (Some a) hashPassword now tbl
         = (Respond 403 (JObj [(''error'', JStr ''Forbidden''),
              (''message'', JStr ''You can only update your own profile'')]), tbl)
     \<and> deleteUser (Inr uid) (Some a) tbl
         = (Respond 403 (JObj [(''error'', JStr ''Forbidden''),
              (''message'', JStr ''You can only delete your own profile or be an admin'')]), tbl))
   \<and> ((actor_id a = uid \<or> actor_role a = ''admin'') \<longrightarrow>
       (\<exists>body. fst (deleteUser (Inr uid) (Some a) tbl) = Respond 200 body
             \<or> fst (deleteUser (Inr uid) (Some a) tbl) = Respond 404 body)
     \<and> fst (updateUser (Inr uid) (Inr upds) (Some a) hashPassword now tbl)
         \<noteq> Respond 403 (JObj [(''error'', JStr ''Forbidden''),
              (''message'', JStr ''You can only update your own profile'')])
     \<and> ((\<exists>body. fst (updateUser (Inr uid) (Inr upds) (Some a) hashPassword now tbl)
                  = Respond 403 body)
          \<longleftrightarrow> (truthy (upd_role upds) \<and> actor_role a \<noteq> ''admin'')))"
proof (intro conjI impI)
  assume "actor_id a \<noteq> uid \<and> actor_role a \<noteq> ''admin''"
  then show "updateUser (Inr uid) (Inr upds) (Some a) hashPassword now tbl
         = (Respond 403 (JObj [(''error'', JStr ''Forbidden''),
              (''message'', JStr ''You can only update your own profile'')]), tbl)"
    by (simp add: updateUser_def)
next
  assume "actor_id a \<noteq> uid \<and> actor_role a \<noteq> ''admin''"
  then show "deleteUser (Inr uid) (Some a) tbl
         = (Respond 403 (JObj [(''error'', JStr ''Forbidden''),
              (''message'', JStr ''You can only delete your own profile or be an admin'')]), tbl)"
    by (simp add: deleteUser_def)
next
  assume "actor_id a = uid \<or> actor_role a = ''admin''"
  then show "\<exists>body. fst (deleteUser (Inr uid) (Some a) tbl) = Respond 200 body
             \<or> fst (deleteUser (Inr uid) (Some a) tbl) = Respond 404 body"
    by (auto simp add: deleteUser_def deleteUserService_def split: option.splits)
next
  assume h: "actor_id a = uid \<or> actor_role a = ''admin''"
  obtain r t where svc: "updateUserService hashPassword now uid upds tbl = (r, t)"
    by (cases "updateUserService hashPassword now uid upds tbl")
  from h show "fst (updateUser (Inr uid) (Inr upds) (Some a) hashPassword now tbl)
         \<noteq> Respond 403 (JObj [(''error'', JStr ''Forbidden''),
              (''message'', JStr ''You can only update your own profile'')])"
    using svc by (cases r) (auto simp add: updateUser_def split: if_splits)
  from h show "(\<exists>body. fst (updateUser (Inr uid) (Inr upds) (Some a) hashPassword now tbl)
                  = Respond 403 body)
          \<longleftrightarrow> (truthy (upd_role upds) \<and> actor_role a \<noteq> ''admin'')"
    using svc by (cases r) (auto simp add: updateUser_def split: if_splits)
qed


theorem own_profile_or_admin_witness:
  "(actor_id \<lparr>actor_id = 3, actor_email = ''eve@example.com'', actor_role = ''user''\<rparr> \<noteq> 7
    \<and> actor_role \<lparr>actor_id = 3, actor_email = ''eve@example.com'', actor_role = ''user''\<rparr> \<noteq> ''admin'')
   \<and> deleteUser (Inr 7)
        (Some \<lparr>actor_id = 3, actor_email = ''eve@example.com'', actor_role = ''user''\<rparr>)
        [\<lparr>user_id = 7, user_name = ''Joe'', user_email = ''joe@example.com'', user_password = ''h7'',
          user_role = ''user'', user_createdAt = 0, user_updatedAt = 0\<rparr>]
      = (Respond 403 (JObj [(''error'', JStr ''Forbidden''),
           (''message'', JStr ''You can only delete your own profile or be an admin'')]),
         [\<lparr>user_id = 7, user_name = ''Joe'', user_email = ''joe@example.com'', user_password = ''h7'',
           user_role = ''user'', user_createdAt = 0, user_updatedAt = 0\<rparr>])
   \<and> (actor_id \<lparr>actor_id = 7, actor_email = ''joe@example.com'', actor_role = ''user''\<rparr> = 7
        \<or> actor_role \<lparr>actor_id = 7, actor_email = ''joe@example.com'', actor_role = ''user''\<rparr> = ''admin'')
   \<and> (\<exists>body. fst (deleteUser (Inr 7)
          (Some \<lparr>actor_id = 7, actor_email = ''joe@example.com'', actor_role = ''user''\<rparr>)
          [\<lparr>user_id = 7, user_name = ''Joe'', user_email = ''joe@example.com'', user_password = ''h7'',
            user_role = ''user'', user_createdAt = 0, user_updatedAt = 0\<rparr>]) = Respond 200 body
        \<or> fst (deleteUser (Inr 7)
          (Some \<lparr>actor_id = 7, actor_email = ''joe@example.com'', actor_role = ''user''\<rparr>)
          [\<lparr>user_id = 7, user_name = ''Joe'', user_email = ''joe@example.com'', user_password = ''h7'',
            user_role = ''user'', user_createdAt = 0, user_updatedAt = 0\<rparr>]) = Respond 404 body)"
  using own_profile_or_admin [of
      "\<lparr>actor_id = 3, actor_email = ''eve@example.com'', actor_role = ''user''\<rparr>" 7 _ _ _
      "[\<lparr>user_id = 7, user_name = ''Joe'', user_email = ''joe@example.com'', user_password = ''h7'',
         user_role = ''user'', user_createdAt = 0, user_updatedAt = 0\<rparr>]"]
    own_profile_or_admin [of
      "\<lparr>actor_id = 7, actor_email = ''joe@example.com'', actor_role = ''user''\<rparr>" 7 _ _ _
      "[\<lparr>user_id = 7, user_name = ''Joe'', user_email = ''joe@example.com'', user_password = ''h7'',
         user_role = ''user'', user_createdAt = 0, user_updatedAt = 0\<rparr>]"]
  by simp


section \<open>The update service: email conflict and failure\<close>

lemma updateUserService_throws:
  "updateUserService hashPassword now uid upds tbl = (Inl e, t) \<Longrightarrow>
   t = tbl \<and> (e = Err ''User not found'' \<or> e = Err ''Email already in use''
              \<or> (\<exists>p. upd_password upds = Some p \<and> hashPassword p = Inl e))"
  by (auto simp add: updateUserService_def Let_def split: option.splits sum.splits if_splits)

text \<open>
  C6. Let \<open>existing\<close> be the row the service finds for the target id, and let
  \<open>hashPassword\<close> return when a password is supplied. If the changes carry an email
  that differs from the email of \<open>existing\<close> and some row of the store holds it, the
  service throws \<open>Email already in use\<close> and the store is unchanged; the service takes no
  actor, and the handler answers 409 to every actor that passes its authorization
  checks. If the email supplied is the current one, the service does not throw, whatever
  the other rows hold.
\<close>

theorem email_conflict:
  "first_row (filter (\<lambda>u. user_id u = uid) tbl) = Some existing
   \<and> (\<forall>p. upd_password upds = Some p \<and> p \<noteq> [] \<longrightarrow> (\<exists>h. hashPassword p = Inr h)) \<longrightarrow>
     ((upd_email upds = Some e \<and> e \<noteq> [] \<and> e \<noteq> user_email existing
        \<and> e \<in> user_email ` set tbl) \<longrightarrow>
          updateUserService hashPassword now uid upds tbl
            = (Inl (Err ''Email already in use''), tbl)
        \<and> ((actor_id a = uid \<or> actor_role a = ''admin'')
             \<and> (truthy (upd_role upds) \<longrightarrow> actor_role a = ''admin'') \<longrightarrow>
            updateUser (Inr uid) (Inr upds) (Some a) hashPassword now tbl
              = (Respond 409 (JObj [(''error'', JStr ''Email already in use'')]), tbl)))
   \<and> (upd_email upds = Some (user_email existing) \<longrightarrow>
        (\<exists>v. fst (updateUserService hashPassword now uid upds tbl) = Inr v))"
proof (intro impI)
  assume asm: "first_row (filter (\<lambda>u. user_id u = uid) tbl) = Some existing
    \<and> (\<forall>p. upd_password upds = Some p \<and> p \<noteq> [] \<longrightarrow> (\<exists>h. hashPassword p = Inr h))"
  then have ex: "first_row (filter (\<lambda>u. user_id u = uid) tbl) = Some existing"
    by simp
  from asm have "\<exists>pw. (case upd_password upds of
                   None \<Rightarrow> Inr None
                 | Some p \<Rightarrow>
                     if p = [] then Inr (Some p)
                     else (case hashPassword p of Inl e \<Rightarrow> Inl e | Inr h \<Rightarrow> Inr (Some h)))
               = Inr pw"
    by (cases "upd_password upds") auto
  then obtain pw where pw: "(case upd_password upds of
                   None \<Rightarrow> Inr None
                 | Some p \<Rightarrow>
                     if p = [] then Inr (Some p)
                     else (case hashPassword p of Inl e \<Rightarrow> Inl e | Inr h \<Rightarrow> Inr (Some h)))
               = Inr pw" ..
  have conflict: "updateUserService hashPassword now uid upds tbl
            = (Inl (Err ''Email already in use''), tbl)"
    if c: "upd_email upds = Some e \<and> e \<noteq> [] \<and> e \<noteq> user_email existing \<and> e \<in> user_email ` set tbl"
  proof -
    from c have "filter (\<lambda>u. Some (user_email u) = upd_email upds) tbl \<noteq> []"
      by (auto simp add: filter_empty_conv)
    then have held: "first_row (filter (\<lambda>u. Some (user_email u) = upd_email upds) tbl) \<noteq> None"
      by (simp add: first_row_eq_None)
    have t: "truthy (upd_email upds)" and d: "upd_email upds \<noteq> Some (user_email existing)"
      using c by (simp_all add: truthy_def)
    show ?thesis
      unfolding updateUserService_def
      by (simp add: ex pw Let_def t d held)
  qed
  have same: "\<exists>v. fst (updateUserService hashPassword now uid upds tbl) = Inr v"
    if c: "upd_email upds = Some (user_email existing)"
    unfolding updateUserService_def
    by (simp add: ex pw Let_def c)
  show "((upd_email upds = Some e \<and> e \<noteq> [] \<and> e \<noteq> user_email existing
        \<and> e \<in> user_email ` set tbl) \<longrightarrow>
          updateUserService hashPassword now uid upds tbl
            = (Inl (Err ''Email already in use''), tbl)
        \<and> ((actor_id a = uid \<or> actor_role a = ''admin'')
             \<and> (truthy (upd_role upds) \<longrightarrow> actor_role a = ''admin'') \<longrightarrow>
            updateUser (Inr uid) (Inr upds) (Some a) hashPassword now tbl
              = (Respond 409 (JObj [(''error'', JStr ''Email already in use'')]), tbl)))
   \<and> (upd_email upds = Some (user_email existing) \<longrightarrow>
        (\<exists>v. fst (updateUserService hashPassword now uid upds tbl) = Inr v))"
    using conflict same by (auto simp add: updateUser_def)
qed

theorem email_conflict_witness:
  "updateUserService Inr 5 1 \<lparr>upd_name = None, upd_email = Some ''joe@example.com'', upd_password = None, upd_role = None\<rparr>
     [\<lparr>user_id = 1, user_name = ''Ann'', user_email = ''ann@example.com'', user_password = ''h1'',
       user_role = ''user'', user_createdAt = 0, user_updatedAt = 0\<rparr>,
      \<lparr>user_id = 7, user_name = ''Joe'', user_email = ''joe@example.com'', user_password = ''h7'',
       user_role = ''user'', user_createdAt = 0, user_updatedAt = 0\<rparr>]
   = (Inl (Err ''Email already in use''),
     [\<lparr>user_id = 1, user_name = ''Ann'', user_email = ''ann@example.com'', user_password = ''h1'',
       user_role = ''user'', user_createdAt = 0, user_updatedAt = 0\<rparr>,
      \<lparr>user_id = 7, user_name = ''Joe'', user_email = ''joe@example.com'', user_password = ''h7'',
       user_role = ''user'', user_createdAt = 0, user_updatedAt = 0\<rparr>])
   \<and> updateUser (Inr 1) (Inr \<lparr>upd_name = None, upd_email = Some ''joe@example.com'', upd_password = None, upd_role = None\<rparr>)
       (Some \<lparr>actor_id = 1, actor_email = ''ann@example.com'', actor_role = ''user''\<rparr>) Inr 5
     [\<lparr>user_id = 1, user_name = ''Ann'', user_email = ''ann@example.com'', user_password = ''h1'',
       user_role = ''user'', user_createdAt = 0, user_updatedAt = 0\<rparr>,
      \<lparr>user_id = 7, user_name = ''Joe'', user_email = ''joe@example.com'', user_password = ''h7'',
       user_role = ''user'', user_createdAt = 0, user_updatedAt = 0\<rparr>]
   = (Respond 409 (JObj [(''error'', JStr ''Email already in use'')]),
     [\<lparr>user_id = 1, user_name = ''Ann'', user_email = ''ann@example.com'', user_password = ''h1'',
       user_role = ''user'', user_createdAt = 0, user_updatedAt = 0\<rparr>,
      \<lparr>user_id = 7, user_name = ''Joe'', user_email = ''joe@example.com'', user_password = ''h7'',
       user_role = ''user'', user_createdAt = 0, user_updatedAt = 0\<rparr>])
   \<and> (\<exists>v. fst (updateUserService Inr 5 1 \<lparr>upd_name = None, upd_email = Some ''ann@example.com'', upd_password = None, upd_role = None\<rparr>
     [\<lparr>user_id = 1, user_name = ''Ann'', user_email = ''ann@example.com'', user_password = ''h1'',
       user_role = ''user'', user_createdAt = 0, user_updatedAt = 0\<rparr>,
      \<lparr>user_id = 7, user_name = ''Joe'', user_email = ''joe@example.com'', user_password = ''h7'',
       user_role = ''user'', user_createdAt = 0, user_updatedAt = 0\<rparr>]) = Inr v)"
  using email_conflict [where uid = 1 and hashPassword = Inr and now = 5
     and e = "''joe@example.com''"
     and tbl = "[\<lparr>user_id = 1, user_name = ''Ann'', user_email = ''ann@example.com'', user_password = ''h1'',
       user_role = ''user'', user_createdAt = 0, user_updatedAt = 0\<rparr>,
      \<lparr>user_id = 7, user_name = ''Joe'', user_email = ''joe@example.com'', user_password = ''h7'',
       user_role = ''user'', user_createdAt = 0, user_updatedAt = 0\<rparr>]"
     and existing = "\<lparr>user_id = 1, user_name = ''Ann'', user_email = ''ann@example.com'', user_password = ''h1'',
       user_role = ''user'', user_createdAt = 0, user_updatedAt = 0\<rparr>"
     and upds = "\<lparr>upd_name = None, upd_email = Some ''joe@example.com'', upd_password = None, upd_role = None\<rparr>"
     and a = "\<lparr>actor_id = 1, actor_email = ''ann@example.com'', actor_role = ''user''\<rparr>"]
   email_conflict [where uid = 1 and hashPassword = Inr and now = 5
     and e = "''joe@example.com''"
     and tbl = "[\<lparr>user_id = 1, user_name = ''Ann'', user_email = ''ann@example.com'', user_password = ''h1'',
       user_role = ''user'', user_createdAt = 0, user_updatedAt = 0\<rparr>,
      \<lparr>user_id = 7, user_name = ''Joe'', user_email = ''joe@example.com'', user_password = ''h7'',
       user_role = ''user'', user_createdAt = 0, user_updatedAt = 0\<rparr>]"
     and existing = "\<lparr>user_id = 1, user_name = ''Ann'', user_email = ''ann@example.com'', user_password = ''h1'',
       user_role = ''user'', user_createdAt = 0, user_updatedAt = 0\<rparr>"
     and upds = "\<lparr>upd_name = None, upd_email = Some ''ann@example.com'', upd_password = None, upd_role = None\<rparr>"
     and a = "\<lparr>actor_id = 1, actor_email = ''ann@example.com'', actor_role = ''user''\<rparr>"]
  by (simp add: truthy_def)

text \<open>
  C10. Whenever the update service throws (\<open>User not found\<close>, \<open>Email already in use\<close>,
  or the error of \<open>hashPassword\<close>), the table it leaves is the table it was given: the
  write is reached on no failing path. Hence whenever the update handler answers
  anything but 200, the store is unchanged.
\<close>

theorem failed_update_leaves_store:
  "(\<forall>e. fst (updateUserService hashPassword now uid upds tbl) = Inl e \<longrightarrow>
        snd (updateUserService hashPassword now uid upds tbl) = tbl
        \<and> (e = Err ''User not found'' \<or> e = Err ''Email already in use''
            \<or> (\<exists>p. upd_password upds = Some p \<and> hashPassword p = Inl e)))
   \<and> ((\<forall>body. fst (updateUser idv updv user hashPassword now tbl) \<noteq> Respond 200 body) \<longrightarrow>
        snd (updateUser idv updv user hashPassword now tbl) = tbl)"
proof (rule conjI)
  show "\<forall>e. fst (updateUserService hashPassword now uid upds tbl) = Inl e \<longrightarrow>
        snd (updateUserService hashPassword now uid upds tbl) = tbl
        \<and> (e = Err ''User not found'' \<or> e = Err ''Email already in use''
            \<or> (\<exists>p. upd_password upds = Some p \<and> hashPassword p = Inl e))"
    using updateUserService_throws [of hashPassword now uid upds tbl]
    by (cases "updateUserService hashPassword now uid upds tbl") auto
next
  show "(\<forall>body. fst (updateUser idv updv user hashPassword now tbl) \<noteq> Respond 200 body) \<longrightarrow>
        snd (updateUser idv updv user hashPassword now tbl) = tbl"
    by (auto simp add: updateUser_def validation_failed_def Let_def
        dest: updateUserService_throws
        split: sum.splits option.splits prod.splits if_splits)
qed

theorem failed_update_leaves_store_witness:
  "fst (updateUserService Inr 5 1 \<lparr>upd_name = None, upd_email = Some ''joe@example.com'', upd_password = None, upd_role = None\<rparr>
     [\<lparr>user_id = 1, user_name = ''Ann'', user_email = ''ann@example.com'', user_password = ''h1'',
       user_role = ''user'', user_createdAt = 0, user_updatedAt = 0\<rparr>,
      \<lparr>user_id = 7, user_name = ''Joe'', user_email = ''joe@example.com'', user_password = ''h7'',
       user_role = ''user'', user_createdAt = 0, user_updatedAt = 0\<rparr>]) = Inl (Err ''Email already in use'')
   \<and> snd (updateUserService Inr 5 1 \<lparr>upd_name = None, upd_email = Some ''joe@example.com'', upd_password = None, upd_role = None\<rparr>
     [\<lparr>user_id = 1, user_name = ''Ann'', user_email = ''ann@example.com'', user_password = ''h1'',
       user_role = ''user'', user_createdAt = 0, user_updatedAt = 0\<rparr>,
      \<lparr>user_id = 7, user_name = ''Joe'', user_email = ''joe@example.com'', user_password = ''h7'',
       user_role = ''user'', user_createdAt = 0, user_updatedAt = 0\<rparr>])
   = [\<lparr>user_id = 1, user_name = ''Ann'', user_email = ''ann@example.com'', user_password = ''h1'',
       user_role = ''user'', user_createdAt = 0, user_updatedAt = 0\<rparr>,
      \<lparr>user_id = 7, user_name = ''Joe'', user_email = ''joe@example.com'', user_password = ''h7'',
       user_role = ''user'', user_createdAt = 0, user_updatedAt = 0\<rparr>]
   \<and> fst (updateUserService Inr 5 2 \<lparr>upd_name = None, upd_email = Some ''joe@example.com'', upd_password = None, upd_role = None\<rparr>
     [\<lparr>user_id = 1, user_name = ''Ann'', user_email = ''ann@example.com'', user_password = ''h1'',
       user_role = ''user'', user_createdAt = 0, user_updatedAt = 0\<rparr>,
      \<lparr>user_id = 7, user_name = ''Joe'', user_email = ''joe@example.com'', user_password = ''h7'',
       user_role = ''user'', user_createdAt = 0, user_updatedAt = 0\<rparr>]) = Inl (Err ''User not found'')
   \<and> snd (updateUserService Inr 5 2 \<lparr>upd_name = None, upd_email = Some ''joe@example.com'', upd_password = None, upd_role = None\<rparr>
     [\<lparr>user_id = 1, user_name = ''Ann'', user_email = ''ann@example.com'', user_password = ''h1'',
       user_role = ''user'', user_createdAt = 0, user_updatedAt = 0\<rparr>,
      \<lparr>user_id = 7, user_name = ''Joe'', user_email = ''joe@example.com'', user_password = ''h7'',
       user_role = ''user'', user_createdAt = 0, user_updatedAt = 0\<rparr>])
   = [\<lparr>user_id = 1, user_name = ''Ann'', user_email = ''ann@example.com'', user_password = ''h1'',
       user_role = ''user'', user_createdAt = 0, user_updatedAt = 0\<rparr>,
      \<lparr>user_id = 7, user_name = ''Joe'', user_email = ''joe@example.com'', user_password = ''h7'',
       user_role = ''user'', user_createdAt = 0, user_updatedAt = 0\<rparr>]"
  using failed_update_leaves_store [of Inr 5 1
     "\<lparr>upd_name = None, upd_email = Some ''joe@example.com'', upd_password = None, upd_role = None\<rparr>"
     "[\<lparr>user_id = 1, user_name = ''Ann'', user_email = ''ann@example.com'', user_password = ''h1'',
       user_role = ''user'', user_createdAt = 0, user_updatedAt = 0\<rparr>,
      \<lparr>user_id = 7, user_name = ''Joe'', user_email = ''joe@example.com'', user_password = ''h7'',
       user_role = ''user'', user_createdAt = 0, user_updatedAt = 0\<rparr>]"]
    failed_update_leaves_store [of Inr 5 2
     "\<lparr>upd_name = None, upd_email = Some ''joe@example.com'', upd_password = None, upd_role = None\<rparr>"
     "[\<lparr>user_id = 1, user_name = ''Ann'', user_email = ''ann@example.com'', user_password = ''h1'',
       user_role = ''user'', user_createdAt = 0, user_updatedAt = 0\<rparr>,
      \<lparr>user_id = 7, user_name = ''Joe'', user_email = ''joe@example.com'', user_password = ''h7'',
       user_role = ''user'', user_createdAt = 0, user_updatedAt = 0\<rparr>]"]
  by (simp add: updateUserService_def truthy_def)


section \<open>No password in what the store and the handlers return\<close>

lemma projection_no_password: "\<not> has_key ''password'' (projection u)"
  by (simp add: projection_def)

lemma first_row_projection_no_password:
  "first_row (map projection rows) = Some j \<Longrightarrow> \<not> has_key ''password'' j"
  by (cases rows) (auto simp add: projection_no_password)

lemma getAllUsers_no_password: "j \<in> set (getAllUsers tbl) \<Longrightarrow> \<not> has_key ''password'' j"
  by (auto simp add: getAllUsers_def projection_no_password)

lemma getUserByIdService_no_password:
  "getUserByIdService uid tbl = Inr j \<Longrightarrow> \<not> has_key ''password'' j"
  by (auto simp add: getUserByIdService_def split: option.splits
      dest: first_row_projection_no_password)

lemma updateUserService_no_password:
  "updateUserService hashPassword now uid upds tbl = (Inr (Some j), t) \<Longrightarrow>
   \<not> has_key ''password'' j"
  by (auto simp add: updateUserService_def Let_def
      split: option.splits sum.splits if_splits
      dest: first_row_projection_no_password)

lemma deleteUserService_no_password:
  "deleteUserService uid tbl = (Inr j, t) \<Longrightarrow> \<not> has_key ''password'' j"
  by (auto simp add: deleteUserService_def split: option.splits)

lemma fetchAllUsers_no_password:
  "fetchAllUsers tbl = Respond st body \<Longrightarrow> \<not> has_key ''password'' body"
  by (auto simp add: fetchAllUsers_def Let_def dest: getAllUsers_no_password)

lemma getUserById_no_password:
  "getUserById idv tbl = Respond st body \<Longrightarrow>
   (\<And>d. idv = Inl d \<Longrightarrow> \<not> has_key ''password'' d) \<Longrightarrow> \<not> has_key ''password'' body"
  by (auto simp add: getUserById_def validation_failed_def
      split: sum.splits if_splits dest: getUserByIdService_no_password)

lemma updateUser_no_password:
  "updateUser idv updv user hashPassword now tbl = (Respond st body, t) \<Longrightarrow>
   (\<And>d. idv = Inl d \<Longrightarrow> \<not> has_key ''password'' d) \<Longrightarrow>
   (\<And>d. updv = Inl d \<Longrightarrow> \<not> has_key ''password'' d) \<Longrightarrow> \<not> has_key ''password'' body"
  by (auto simp add: updateUser_def validation_failed_def field_def Let_def
      split: sum.splits option.splits prod.splits if_splits
      dest: updateUserService_no_password)

lemma deleteUser_no_password:
  "deleteUser idv user tbl = (Respond st body, t) \<Longrightarrow>
   (\<And>d. idv = Inl d \<Longrightarrow> \<not> has_key ''password'' d) \<Longrightarrow> \<not> has_key ''password'' body"
  by (auto simp add: deleteUser_def validation_failed_def Let_def
      split: sum.splits option.splits prod.splits if_splits
      dest: deleteUserService_no_password)

lemma securityMiddleware_no_password:
  "fst (securityMiddleware env protect req) = Respond st body \<Longrightarrow> \<not> has_key ''password'' body"
  by (auto simp add: securityMiddleware_def Let_def case_prod_beta
      split: sum.splits if_splits)

lemma securityMiddleware2_no_password:
  "fst (securityMiddleware2 protect req) = Respond st body \<Longrightarrow> \<not> has_key ''password'' body"
  by (auto simp add: securityMiddleware2_def Let_def case_prod_beta
      split: sum.splits if_splits)

text \<open>
  C8. None of the values the user store returns (\<open>getAllUsers\<close>, \<open>getUserById\<close>,
  \<open>updateUser\<close>, \<open>deleteUser\<close> of the service) has a \<open>password\<close> field at any depth,
  and neither has any response body the four handlers or the gate send. The details of a
  failed validation come from \<open>formatValidationError\<close> of another module: they are
  taken to carry no such field.
\<close>

theorem no_password_in_responses:
  "(\<forall>j \<in> set (getAllUsers tbl). \<not> has_key ''password'' j)
   \<and> (\<forall>j. getUserByIdService uid tbl = Inr j \<longrightarrow> \<not> has_key ''password'' j)
   \<and> (\<forall>j. fst (updateUserService hashPassword now uid upds tbl) = Inr (Some j)
          \<longrightarrow> \<not> has_key ''password'' j)
   \<and> (\<forall>j. fst (deleteUserService uid tbl) = Inr j \<longrightarrow> \<not> has_key ''password'' j)
   \<and> (\<forall>st body. fetchAllUsers tbl = Respond st body \<longrightarrow> \<not> has_key ''password'' body)
   \<and> (\<forall>st body. fst (securityMiddleware env protect req) = Respond st body
          \<longrightarrow> \<not> has_key ''password'' body)
   \<and> (\<forall>st body. fst (securityMiddleware2 protect req) = Respond st body
          \<longrightarrow> \<not> has_key ''password'' body)
   \<and> ((\<forall>d. idv = Inl d \<longrightarrow> \<not> has_key ''password'' d)
        \<and> (\<forall>d. updv = Inl d \<longrightarrow> \<not> has_key ''password'' d) \<longrightarrow>
      (\<forall>st body. getUserById idv tbl = Respond st body \<longrightarrow> \<not> has_key ''password'' body)
      \<and> (\<forall>st body. fst (updateUser idv updv user hashPassword now tbl) = Respond st body
            \<longrightarrow> \<not> has_key ''password'' body)
      \<and> (\<forall>st body. fst (deleteUser idv user tbl) = Respond st body
            \<longrightarrow> \<not> has_key ''password'' body))"
proof (intro conjI)
  show "\<forall>j \<in> set (getAllUsers tbl). \<not> has_key ''password'' j"
    using getAllUsers_no_password by blast
  show "\<forall>j. getUserByIdService uid tbl = Inr j \<longrightarrow> \<not> has_key ''password'' j"
    using getUserByIdService_no_password by blast
  show "\<forall>j. fst (updateUserService hashPassword now uid upds tbl) = Inr (Some j)
          \<longrightarrow> \<not> has_key ''password'' j"
    using updateUserService_no_password [of hashPassword now uid upds tbl]
    by (cases "updateUserService hashPassword now uid upds tbl") auto
  show "\<forall>j. fst (deleteUserService uid tbl) = Inr j \<longrightarrow> \<not> has_key ''password'' j"
    using deleteUserService_no_password [of uid tbl]
    by (cases "deleteUserService uid tbl") auto
  show "\<forall>st body. fetchAllUsers tbl = Respond st body \<longrightarrow> \<not> has_key ''password'' body"
    using fetchAllUsers_no_password by blast
  show "\<forall>st body. fst (securityMiddleware env protect req) = Respond st body
          \<longrightarrow> \<not> has_key ''password'' body"
    using securityMiddleware_no_password by blast
  show "\<forall>st body. fst (securityMiddleware2 protect req) = Respond st body
          \<longrightarrow> \<not> has_key ''password'' body"
    using securityMiddleware2_no_password by blast
  show "(\<forall>d. idv = Inl d \<longrightarrow> \<not> has_key ''password'' d)
        \<and> (\<forall>d. updv = Inl d \<longrightarrow> \<not> has_key ''password'' d) \<longrightarrow>
      (\<forall>st body. getUserById idv tbl = Respond st body \<longrightarrow> \<not> has_key ''password'' body)
      \<and> (\<forall>st body. fst (updateUser idv updv user hashPassword now tbl) = Respond st body
            \<longrightarrow> \<not> has_key ''password'' body)
      \<and> (\<forall>st body. fst (deleteUser idv user tbl) = Respond st body
            \<longrightarrow> \<not> has_key ''password'' body)"
  proof (intro impI conjI allI)
    fix st body
    assume d: "(\<forall>d. idv = Inl d \<longrightarrow> \<not> has_key ''password'' d)
        \<and> (\<forall>d. updv = Inl d \<longrightarrow> \<not> has_key ''password'' d)"
    {
      assume "getUserById idv tbl = Respond st body"
      then show "\<not> has_key ''password'' body"
        using d getUserById_no_password [of idv tbl st body] by blast
    next
      assume "fst (updateUser idv updv user hashPassword now tbl) = Respond st body"
      then show "\<not> has_key ''password'' body"
        using d updateUser_no_password [of idv updv user hashPassword now tbl st body]
        by (cases "updateUser idv updv user hashPassword now tbl") auto
    next
      assume "fst (deleteUser idv user tbl) = Respond st body"
      then show "\<not> has_key ''password'' body"
        using d deleteUser_no_password [of idv user tbl st body]
        by (cases "deleteUser idv user tbl") auto
    }
  qed
qed

theorem no_password_in_responses_witness:
  "fst (updateUser (Inr 1) (Inr \<lparr>upd_name = None, upd_email = None, upd_password = Some ''newpass123'', upd_role = None\<rparr>)
          (Some \<lparr>actor_id = 1, actor_email = ''ann@example.com'', actor_role = ''user''\<rparr>) Inr 5
          [\<lparr>user_id = 1, user_name = ''Ann'', user_email = ''ann@example.com'', user_password = ''h1'',
       user_role = ''user'', user_createdAt = 0, user_updatedAt = 0\<rparr>])
     = Respond 200 (JObj [(''message'', JStr ''User updated successfully''),
         (''user'', JObj [(''id'', JNum 1), (''name'', JStr ''Ann''),
            (''email'', JStr ''ann@example.com''), (''role'', JStr ''user''),
            (''createdAt'', JNum 0), (''updatedAt'', JNum 5)])])
   \<and> \<not> has_key ''password'' (JObj [(''message'', JStr ''User updated successfully''),
         (''user'', JObj [(''id'', JNum 1), (''name'', JStr ''Ann''),
            (''email'', JStr ''ann@example.com''), (''role'', JStr ''user''),
            (''createdAt'', JNum 0), (''updatedAt'', JNum 5)])])
   \<and> has_key ''updatedAt'' (JObj [(''message'', JStr ''User updated successfully''),
         (''user'', JObj [(''id'', JNum 1), (''name'', JStr ''Ann''),
            (''email'', JStr ''ann@example.com''), (''role'', JStr ''user''),
            (''createdAt'', JNum 0), (''updatedAt'', JNum 5)])])"
  using no_password_in_responses [where idv = "Inr 1" and updv = "Inr \<lparr>upd_name = None, upd_email = None, upd_password = Some ''newpass123'', upd_role = None\<rparr>"
      and user = "Some \<lparr>actor_id = 1, actor_email = ''ann@example.com'', actor_role = ''user''\<rparr>"
      and hashPassword = Inr and now = 5 and uid = 1
      and upds = "\<lparr>upd_name = None, upd_email = None, upd_password = Some ''newpass123'', upd_role = None\<rparr>"
      and tbl = "[\<lparr>user_id = 1, user_name = ''Ann'', user_email = ''ann@example.com'', user_password = ''h1'',
       user_role = ''user'', user_createdAt = 0, user_updatedAt = 0\<rparr>]"]
  by (simp add: updateUser_def updateUserService_def truthy_def Let_def set_row_def
      projection_def field_def)


section \<open>The gate\<close>

lemma limit_and_message_ceilings:
  "fst (limit_and_message ''guest'') = 5 \<and> fst (limit_and_message ''user'') = 10
   \<and> fst (limit_and_message ''admin'') = 20
   \<and> (role \<noteq> ''admin'' \<and> role \<noteq> ''user'' \<and> role \<noteq> ''guest''
        \<longrightarrow> limit_and_message role = (5, ''Request limit exceeded. Slow down!''))"
  by (simp add: limit_and_message_def)

text \<open>
  The middleware with the deployment check, outside production: whatever the request and
  the decision service, it calls \<open>next\<close> after one log line. The decision service is
  not called, and neither the allow-list nor the role is looked at.
\<close>

lemma securityMiddleware_bypass:
  "env \<noteq> Some ''production'' \<Longrightarrow>
   securityMiddleware env protect req =
     (Next None,
      [Log Info (''Bypassing security middleware (NODE_ENV: ''
                 @ (case env of None \<Rightarrow> ''development''
                    | Some v \<Rightarrow> if v = [] then ''development'' else v) @ '')'') []])"
  by (cases env) (simp_all add: securityMiddleware_def)

text \<open>
  The middleware with the deployment check, when the decision service throws: it logs
  the error and calls \<open>next\<close>. It answers with no status of its own, whatever the
  deployment and the request.
\<close>

lemma securityMiddleware_fail_open:
  "env = Some ''production'' \<Longrightarrow>
   \<not> isWhitelisted (case req_userAgent req of None \<Rightarrow> [] | Some v \<Rightarrow> v) \<Longrightarrow>
   protect \<lparr>rule_mode = ''LIVE'', rule_interval = ''1m'',
            rule_max = fst (limit_and_message (role_of req)),
            rule_name = role_of req @ ''-rate-limit''\<rparr> req = Inl e \<Longrightarrow>
   securityMiddleware env protect req =
     (Next None,
      [Protect \<lparr>rule_mode = ''LIVE'', rule_interval = ''1m'',
                rule_max = fst (limit_and_message (role_of req)),
                rule_name = role_of req @ ''-rate-limit''\<rparr>,
       Log Error ''Arcjet middleware error:''
         [(''error'', JStr (err_message e)), (''path'', JStr (req_path req))]])"
  by (simp add: securityMiddleware_def Let_def case_prod_beta)

lemma securityMiddleware_never_blocks_on_error:
  "fst (securityMiddleware env (throwing_service e) req) = Next None"
  by (simp add: securityMiddleware_def throwing_service_def Let_def case_prod_beta)

text \<open>
  The rule the middleware asks the decision service about carries the ceiling of the
  role: 5 for a guest, 10 for a user, 20 for an admin, 5 for any other role.
\<close>

lemma securityMiddleware_asks_with_ceiling:
  "env = Some ''production'' \<Longrightarrow>
   \<not> isWhitelisted (case req_userAgent req of None \<Rightarrow> [] | Some v \<Rightarrow> v) \<Longrightarrow>
   hd (snd (securityMiddleware env protect req)) =
     Protect \<lparr>rule_mode = ''LIVE'', rule_interval = ''1m'',
              rule_max = fst (limit_and_message (role_of req)),
              rule_name = role_of req @ ''-rate-limit''\<rparr>"
  by (simp add: securityMiddleware_def Let_def case_prod_beta property_truthy_def
      split: sum.splits)

text \<open>
  Every denial, whatever the methods of its reason return, takes the first branch in both
  middlewares, since \<open>decision.reason.isBot\<close> is truthy: the answer is 403
  \<open>Automated requests are not allowed\<close>. The branches for the shield and the rate limit
  and the \<open>next()\<close> after them are reached by no denial.
\<close>

lemma securityMiddleware_denied:
  "env = Some ''production'' \<Longrightarrow>
   \<not> isWhitelisted (case req_userAgent req of None \<Rightarrow> [] | Some v \<Rightarrow> v) \<Longrightarrow>
   protect \<lparr>rule_mode = ''LIVE'', rule_interval = ''1m'',
            rule_max = fst (limit_and_message (role_of req)),
            rule_name = role_of req @ ''-rate-limit''\<rparr> req = Inr d \<Longrightarrow>
   call (isDenied d) \<Longrightarrow>
   securityMiddleware env protect req =
     (Respond 403 (JObj [(''error'', JStr ''Forbidden''),
                         (''message'', JStr ''Automated requests are not allowed'')]),
      [Protect \<lparr>rule_mode = ''LIVE'', rule_interval = ''1m'',
                rule_max = fst (limit_and_message (role_of req)),
                rule_name = role_of req @ ''-rate-limit''\<rparr>,
       Log Warn ''Bot request blocked''
         [(''ip'', JStr (req_ip req)), (''userAgent'', opt_str (req_userAgent req)),
          (''path'', JStr (req_path req)), (''method'', JStr (req_method req))]])"
  by (simp add: securityMiddleware_def Let_def case_prod_beta property_truthy_def)

lemma securityMiddleware2_denied:
  "protect \<lparr>rule_mode = ''LIVE'', rule_interval = ''1m'',
            rule_max = fst (limit_and_message (role_of req)),
            rule_name = role_of req @ ''-rate-limit''\<rparr> req = Inr d \<Longrightarrow>
   call (isDenied d) \<Longrightarrow>
   securityMiddleware2 protect req =
     (Respond 403 (JObj [(''error'', JStr ''Forbidden''),
                         (''message'', JStr ''Automated requests are not allowed'')]),
      [Protect \<lparr>rule_mode = ''LIVE'', rule_interval = ''1m'',
                rule_max = fst (limit_and_message (role_of req)),
                rule_name = role_of req @ ''-rate-limit''\<rparr>,
       Log Warn ''Bot request blocked''
         [(''ip'', JStr (req_ip req)), (''userAgent'', opt_str (req_userAgent req)),
          (''path'', JStr (req_path req))]])"
  by (simp add: securityMiddleware2_def Let_def case_prod_beta property_truthy_def)

lemma securityMiddleware_allowed:
  "env = Some ''production'' \<Longrightarrow>
   protect \<lparr>rule_mode = ''LIVE'', rule_interval = ''1m'',
            rule_max = fst (limit_and_message (role_of req)),
            rule_name = role_of req @ ''-rate-limit''\<rparr> req = Inr d \<Longrightarrow>
   \<not> call (isDenied d) \<Longrightarrow>
   fst (securityMiddleware env protect req) = Next None"
  by (simp add: securityMiddleware_def Let_def case_prod_beta)

lemma not_whitelisted_Mozilla: "\<not> isWhitelisted ''Mozilla/5.0''"
  by code_simp

text \<open>
  C2. The second middleware at a request whose decision service throws: it answers 500
  and does not call \<open>next\<close>, where the first one logs and lets the request through
  (\<open>securityMiddleware_fail_open\<close>).
\<close>

theorem securityMiddleware2_fails_closed:
  "securityMiddleware2 (throwing_service (Err ''fetch failed''))
      \<lparr>req_userAgent = Some ''Mozilla/5.0'', req_user = None, req_ip = ''203.0.113.9'',
       req_path = ''/api/users'', req_method = ''GET''\<rparr>
   = (Respond 500 (JObj [(''error'', JStr ''Internal Server Error''),
        (''message'', JStr ''Something went wrong with security middleware'')]),
      [Protect \<lparr>rule_mode = ''LIVE'', rule_interval = ''1m'', rule_max = 5,
                rule_name = ''guest-rate-limit''\<rparr>,
       Log Console ''Arcjet Middleware Error:'' [(''error'', JStr ''fetch failed'')]])"
  by (simp add: securityMiddleware2_def throwing_service_def role_of_def
      limit_and_message_def)

text \<open>
  C3. The second middleware reads no deployment flag: in every deployment it asks the
  decision service, with the guest ceiling for this request, and answers 403 when the
  request is classified as a bot, where the first one is bypassed outside production
  (\<open>securityMiddleware_bypass\<close>).
\<close>

theorem securityMiddleware2_no_bypass:
  "securityMiddleware2
      (answering_service
         \<lparr>isDenied = Method True,
          reason = \<lparr>isBot = Method True, isShield = Method False, isRateLimit = Method False\<rparr>\<rparr>)
      \<lparr>req_userAgent = Some ''Mozilla/5.0'', req_user = None, req_ip = ''203.0.113.9'',
       req_path = ''/api/users'', req_method = ''GET''\<rparr>
   = (Respond 403 (JObj [(''error'', JStr ''Forbidden''),
        (''message'', JStr ''Automated requests are not allowed'')]),
      [Protect \<lparr>rule_mode = ''LIVE'', rule_interval = ''1m'', rule_max = 5,
                rule_name = ''guest-rate-limit''\<rparr>,
       Log Warn ''Bot request blocked''
         [(''ip'', JStr ''203.0.113.9''), (''userAgent'', JStr ''Mozilla/5.0''),
          (''path'', JStr ''/api/users'')]])"
  by (simp add: securityMiddleware2_def answering_service_def role_of_def
      limit_and_message_def opt_str_def property_truthy_def)

text \<open>
  C7. An admin's request in production that the decision service denies for the rate
  limit (\<open>isRateLimit()\<close> true, \<open>isBot()\<close> and \<open>isShield()\<close> false). The rule carries the
  admin ceiling of 20, but both middlewares answer 403
  \<open>Automated requests are not allowed\<close> and log a blocked bot: the 429 with the
  message of the role is not sent.
\<close>

theorem rate_limit_denial_answered_as_bot:
  "securityMiddleware (Some ''production'')
      (answering_service
         \<lparr>isDenied = Method True,
          reason = \<lparr>isBot = Method False, isShield = Method False, isRateLimit = Method True\<rparr>\<rparr>)
      \<lparr>req_userAgent = Some ''Mozilla/5.0'',
       req_user = Some \<lparr>actor_id = 9, actor_email = ''root@example.com'', actor_role = ''admin''\<rparr>,
       req_ip = ''203.0.113.9'', req_path = ''/api/users'', req_method = ''GET''\<rparr>
   = (Respond 403 (JObj [(''error'', JStr ''Forbidden''),
        (''message'', JStr ''Automated requests are not allowed'')]),
      [Protect \<lparr>rule_mode = ''LIVE'', rule_interval = ''1m'', rule_max = 20,
                rule_name = ''admin-rate-limit''\<rparr>,
       Log Warn ''Bot request blocked''
         [(''ip'', JStr ''203.0.113.9''), (''userAgent'', JStr ''Mozilla/5.0''),
          (''path'', JStr ''/api/users''), (''method'', JStr ''GET'')]])
   \<and> securityMiddleware2
      (answering_service
         \<lparr>isDenied = Method True,
          reason = \<lparr>isBot = Method False, isShield = Method False, isRateLimit = Method True\<rparr>\<rparr>)
      \<lparr>req_userAgent = Some ''Mozilla/5.0'',
       req_user = Some \<lparr>actor_id = 9, actor_email = ''root@example.com'', actor_role = ''admin''\<rparr>,
       req_ip = ''203.0.113.9'', req_path = ''/api/users'', req_method = ''GET''\<rparr>
   = (Respond 403 (JObj [(''error'', JStr ''Forbidden''),
        (''message'', JStr ''Automated requests are not allowed'')]),
      [Protect \<lparr>rule_mode = ''LIVE'', rule_interval = ''1m'', rule_max = 20,
                rule_name = ''admin-rate-limit''\<rparr>,
       Log Warn ''Bot request blocked''
         [(''ip'', JStr ''203.0.113.9''), (''userAgent'', JStr ''Mozilla/5.0''),
          (''path'', JStr ''/api/users'')]])
   \<and> snd (limit_and_message ''admin'')
       = ''Admin request limit exceeded (20 per minute). Slow down!''"
  using not_whitelisted_Mozilla
  by (simp add: securityMiddleware_def securityMiddleware2_def answering_service_def
      role_of_def limit_and_message_def opt_str_def property_truthy_def)

text \<open>
  C9. A guest's request in production that the decision service denies for a reason that
  is none of bot, shield and rate limit (the three methods return false). The middleware
  does not fall through to \<open>next()\<close>: it answers 403
  \<open>Automated requests are not allowed\<close> and logs a blocked bot.
\<close>

theorem unclassified_denial_answered_as_bot:
  "securityMiddleware (Some ''production'')
      (answering_service
         \<lparr>isDenied = Method True,
          reason = \<lparr>isBot = Method False, isShield = Method False, isRateLimit = Method False\<rparr>\<rparr>)
      \<lparr>req_userAgent = Some ''Mozilla/5.0'', req_user = None, req_ip = ''203.0.113.9'',
       req_path = ''/api/users'', req_method = ''GET''\<rparr>
   = (Respond 403 (JObj [(''error'', JStr ''Forbidden''),
        (''message'', JStr ''Automated requests are not allowed'')]),
      [Protect \<lparr>rule_mode = ''LIVE'', rule_interval = ''1m'', rule_max = 5,
                rule_name = ''guest-rate-limit''\<rparr>,
       Log Warn ''Bot request blocked''
         [(''ip'', JStr ''203.0.113.9''), (''userAgent'', JStr ''Mozilla/5.0''),
          (''path'', JStr ''/api/users''), (''method'', JStr ''GET'')]])"
  using not_whitelisted_Mozilla
  by (simp add: securityMiddleware_def answering_service_def role_of_def
      limit_and_message_def opt_str_def property_truthy_def)

end
